theory Spec2Isabelle
  imports Main
begin

section \<open>The apps controller of picasso: data model\<close>

text \<open>
  The embedded source is \<^verbatim>\<open>picasso/api/controllers/apps.py\<close>, class
  \<^verbatim>\<open>AppV1Controller\<close> with its five request handlers \<^verbatim>\<open>list\<close>, \<^verbatim>\<open>create\<close>,
  \<^verbatim>\<open>get\<close>, \<^verbatim>\<open>update\<close> and \<^verbatim>\<open>delete\<close>. Every handler is a straight line of
  awaited calls on two collaborators: the local model \<^verbatim>\<open>app_model.Apps\<close> and the
  remote functions client \<^verbatim>\<open>c.functions_client\<close>. The body of a handler either
  returns \<^verbatim>\<open>web.json_response(data=..., status=...)\<close> or lets an exception leave it;
  the decorator \<^verbatim>\<open>@requests.api_action\<close> on each handler answers such an exception.

  Strings are \<open>string\<close>; one \<open>char\<close> stands for one character of the Python \<^verbatim>\<open>str\<close>,
  so that \<open>take 30\<close> is the slice \<^verbatim>\<open>[:30]\<close>.
\<close>

subsection \<open>Local records, exceptions, request bodies\<close>

text \<open>
  The three fields the controller passes to the constructor \<^verbatim>\<open>app_model.Apps(name=...,
  project_id=..., description=...)\<close>.
\<close>

record app =
  name :: string
  project_id :: string
  description :: string

text \<open>
  A Python exception object, as far as the handlers look at it: the optional attributes
  \<^verbatim>\<open>status\<close> and \<^verbatim>\<open>reason\<close> read through \<^verbatim>\<open>getattr\<close> with a default, and \<^verbatim>\<open>str(ex)\<close>.
  Values of this type are instances of \<^verbatim>\<open>Exception\<close>, the class named by the handlers'
  \<^verbatim>\<open>except\<close> clauses.
\<close>

record exn =
  ex_status :: "int option"
  ex_reason :: "string option"
  ex_str :: string

text \<open>\<^verbatim>\<open>getattr(ex, "status", 500)\<close> and \<^verbatim>\<open>getattr(ex, "reason", str(ex))\<close>.\<close>

definition getattr_status :: "exn \<Rightarrow> int" where
  "getattr_status ex = (case ex_status ex of None \<Rightarrow> 500 | Some s \<Rightarrow> s)"

definition getattr_reason :: "exn \<Rightarrow> string" where
  "getattr_reason ex = (case ex_reason ex of None \<Rightarrow> ex_str ex | Some r \<Rightarrow> r)"

text \<open>
  The exceptions the handlers' own expressions raise: \<^verbatim>\<open>data["app"]\<close> and
  \<^verbatim>\<open>data["app"]["name"]\<close> on a missing key (\<^verbatim>\<open>str(KeyError('app'))\<close> is the quoted key),
  and \<^verbatim>\<open>[].pop()\<close>. None of them carries a \<^verbatim>\<open>status\<close> or \<^verbatim>\<open>reason\<close> attribute.
\<close>

definition KeyError :: "string \<Rightarrow> exn" where
  "KeyError k = \<lparr>ex_status = None, ex_reason = None, ex_str = [CHR 0x27] @ k @ [CHR 0x27]\<rparr>"

definition IndexError :: exn where
  "IndexError = \<lparr>ex_status = None, ex_reason = None, ex_str = ''pop from empty list''\<rparr>"

text \<open>
  The decoded request body: a dict of dicts. The values of the inner dict are strings,
  as the handler's schema declares for \<^verbatim>\<open>name\<close>; a key may be absent on either level.
\<close>

type_synonym json_obj = "string \<rightharpoonup> string"
type_synonym json_body = "string \<rightharpoonup> json_obj"

text \<open>
  The outcome of \<^verbatim>\<open>await request.json()\<close>, the first awaited step of \<^verbatim>\<open>create\<close> and
  \<^verbatim>\<open>update\<close>: the decoded body, or the exception that decoding an empty or malformed
  body raises.
\<close>

type_synonym request_json = "exn + json_body"

subsection \<open>Views and responses\<close>

text \<open>
  Modelled from the spec: \<^verbatim>\<open>app_view.AppView(app, fn_app).view()\<close> (module
  \<^verbatim>\<open>picasso/api/views/app.py\<close>, not among the sources). The spec says that a view merges
  the local and the remote fields: the view keeps the local record and the remote
  app object it was built from. The type \<open>'f\<close> is the remote app object.
\<close>

record 'f view =
  view_app :: app
  view_fn_app :: 'f

definition AppView :: "app \<Rightarrow> 'f \<Rightarrow> 'f view" where
  "AppView stored_app fn_app = \<lparr>view_app = stored_app, view_fn_app = fn_app\<rparr>"

text \<open>
  The four shapes of the \<^verbatim>\<open>data\<close> argument of \<^verbatim>\<open>web.json_response\<close>:
  \<^verbatim>\<open>{"error": {"message": m}}\<close>, \<^verbatim>\<open>{"app": v, "message": m}\<close>,
  \<^verbatim>\<open>{"apps": vs, "message": m}\<close> and \<^verbatim>\<open>{"message": m}\<close>.
\<close>

datatype 'f body =
    ErrorBody string
  | AppBody "'f view" string
  | AppsBody "'f view list" string
  | MessageBody string

record 'f response =
  data :: "'f body"
  status :: int

definition json_response :: "'f body \<Rightarrow> int \<Rightarrow> 'f response" where
  "json_response d s = \<lparr>data = d, status = s\<rparr>"

subsection \<open>The two stores and the log of calls\<close>

text \<open>
  Every awaited call on a collaborator, in the order the handler makes it. The log is
  what "calls" and "does not call" are stated on.
\<close>

datatype call =
    RegFindBy string "string option"
  | RegExists string string
  | RegSave app
  | RegDelete string string
  | FnShow string
  | FnRoutesList string
  | FnCreate string
  | FnUpdate string json_body
  | FnDelete string

text \<open>
  The world a handler runs in: the rows of the local registry in the registry's order,
  the state \<open>'r\<close> of the remote functions platform, and the log.
\<close>

record 'r world =
  registry :: "app list"
  remote :: 'r
  calls :: "call list"

definition log_call :: "call \<Rightarrow> 'r world \<Rightarrow> 'r world" where
  "log_call k w = w\<lparr>calls := calls w @ [k]\<rparr>"

text \<open>
  The remote functions client \<^verbatim>\<open>c.functions_client\<close> is a library outside the
  repository, so the handlers take it as a parameter: \<^verbatim>\<open>apps.show\<close> and
  \<^verbatim>\<open>fn_app.routes.list\<close> read the platform's state, \<^verbatim>\<open>apps.create\<close>, \<^verbatim>\<open>apps.update\<close>
  and \<^verbatim>\<open>apps.delete\<close> may change it, and each of them either returns or raises.
  An error raised while binding the arguments of \<^verbatim>\<open>apps.update(app_name, loop=..., **data)\<close>
  is raised inside the \<^verbatim>\<open>try\<close> block as well and is a raise of \<open>apps_update\<close> here.
\<close>

type_synonym route = string

record ('r, 'f) fnclient =
  apps_show :: "string \<Rightarrow> 'r \<Rightarrow> exn + 'f"
  routes_list :: "'f \<Rightarrow> 'r \<Rightarrow> exn + route list"
  apps_create :: "string \<Rightarrow> 'r \<Rightarrow> (exn + 'f) \<times> 'r"
  apps_update :: "string \<Rightarrow> json_body \<Rightarrow> 'r \<Rightarrow> (exn + 'f) \<times> 'r"
  apps_delete :: "string \<Rightarrow> 'r \<Rightarrow> (exn + unit) \<times> 'r"

definition fn_show :: "('r, 'f) fnclient \<Rightarrow> string \<Rightarrow> 'r world \<Rightarrow> (exn + 'f) \<times> 'r world" where
  "fn_show c n w = (apps_show c n (remote w), log_call (FnShow n) w)"

definition fn_routes_list ::
  "('r, 'f) fnclient \<Rightarrow> string \<Rightarrow> 'f \<Rightarrow> 'r world \<Rightarrow> (exn + route list) \<times> 'r world" where
  "fn_routes_list c n fn_app w = (routes_list c fn_app (remote w), log_call (FnRoutesList n) w)"

definition fn_create :: "('r, 'f) fnclient \<Rightarrow> string \<Rightarrow> 'r world \<Rightarrow> (exn + 'f) \<times> 'r world" where
  "fn_create c n w =
     (fst (apps_create c n (remote w)),
      log_call (FnCreate n) (w\<lparr>remote := snd (apps_create c n (remote w))\<rparr>))"

definition fn_update ::
  "('r, 'f) fnclient \<Rightarrow> string \<Rightarrow> json_body \<Rightarrow> 'r world \<Rightarrow> (exn + 'f) \<times> 'r world" where
  "fn_update c n d w =
     (fst (apps_update c n d (remote w)),
      log_call (FnUpdate n d) (w\<lparr>remote := snd (apps_update c n d (remote w))\<rparr>))"

definition fn_delete :: "('r, 'f) fnclient \<Rightarrow> string \<Rightarrow> 'r world \<Rightarrow> (exn + unit) \<times> 'r world" where
  "fn_delete c n w =
     (fst (apps_delete c n (remote w)),
      log_call (FnDelete n) (w\<lparr>remote := snd (apps_delete c n (remote w))\<rparr>))"

subsection \<open>The local registry\<close>

text \<open>
  Modelled from the spec: the class \<^verbatim>\<open>app_model.Apps\<close> (module \<^verbatim>\<open>picasso/models/app.py\<close>,
  not among the sources). The spec gives its interface as
  \<^verbatim>\<open>find_by(project_id[, name]) -> sequence<App>\<close>, \<^verbatim>\<open>exists(name, project_id) -> bool\<close>,
  \<^verbatim>\<open>save(App) -> App\<close> and \<^verbatim>\<open>delete(project_id, name) -> void\<close> over the stored
  \<open>(project_id, name, description)\<close> records: \<open>find_by\<close> returns the matching rows in
  the registry's order, \<open>exists\<close> says whether a row matches, \<open>save\<close> adds the row and
  returns it, \<open>delete\<close> removes the matching rows. The spec names no failure of these
  calls, and none is modelled: each of them returns.
\<close>

definition matches :: "string \<Rightarrow> string option \<Rightarrow> app \<Rightarrow> bool" where
  "matches pid n a =
     (project_id a = pid \<and> (case n of None \<Rightarrow> True | Some n' \<Rightarrow> name a = n'))"

definition find_by :: "string \<Rightarrow> string option \<Rightarrow> app list \<Rightarrow> app list" where
  "find_by pid n rows = filter (matches pid n) rows"

definition Apps_find_by :: "string \<Rightarrow> string option \<Rightarrow> 'r world \<Rightarrow> app list \<times> 'r world" where
  "Apps_find_by pid n w = (find_by pid n (registry w), log_call (RegFindBy pid n) w)"

definition Apps_exists :: "string \<Rightarrow> string \<Rightarrow> 'r world \<Rightarrow> bool \<times> 'r world" where
  "Apps_exists n pid w = (find_by pid (Some n) (registry w) \<noteq> [], log_call (RegExists n pid) w)"

definition Apps_save :: "app \<Rightarrow> 'r world \<Rightarrow> app \<times> 'r world" where
  "Apps_save a w = (a, log_call (RegSave a) (w\<lparr>registry := registry w @ [a]\<rparr>))"

definition Apps_delete :: "string \<Rightarrow> string \<Rightarrow> 'r world \<Rightarrow> 'r world" where
  "Apps_delete pid n w =
     log_call (RegDelete pid n)
       (w\<lparr>registry := filter (\<lambda>a. \<not> matches pid (Some n) a) (registry w)\<rparr>)"

text \<open>Python's \<^verbatim>\<open>list.pop()\<close>: the last element, \<^verbatim>\<open>IndexError\<close> on the empty list.\<close>

fun pop :: "'a list \<Rightarrow> exn + 'a" where
  "pop [] = Inl IndexError"
| "pop (x # xs) = Inr (last (x # xs))"

section \<open>The handlers\<close>

text \<open>
  The body of a handler returns \<open>Inr\<close> of its response, or \<open>Inl\<close> of the exception
  that leaves it, together with the world it leaves behind. Logging calls
  (\<^verbatim>\<open>log.info\<close>, \<^verbatim>\<open>log.debug\<close>) have no part in the result and are left out.
\<close>

type_synonym ('r, 'f) handled = "(exn + 'f response) \<times> 'r world"

subsection \<open>The decorator \<^verbatim>\<open>@requests.api_action\<close>\<close>

text \<open>
  Each of the five functions carries \<^verbatim>\<open>@requests.api_action(method=..., route=...)\<close>, so
  the function the router calls is the decorated one. The decorator belongs to the
  library aioservice, outside the repository. An exception that leaves the function
  body does not leave the decorated function: it is answered with an error response
  whose status is the exception's \<^verbatim>\<open>status\<close> attribute, 500 by default (the spec: an
  unhandled error goes to "the framework's default error response", "status 500 by
  default"). The message of that response is the library's text for the exception and
  is the parameter \<open>error_text\<close>. A response that the body returns passes through, and
  the decorator touches neither store.
\<close>

definition api_action :: "(exn \<Rightarrow> string) \<Rightarrow> ('r, 'f) handled \<Rightarrow> ('r, 'f) handled" where
  "api_action error_text h =
     (case h of
        (Inl ex, w) \<Rightarrow> (Inr (json_response (ErrorBody (error_text ex)) (getattr_status ex)), w)
      | (Inr r, w) \<Rightarrow> (Inr r, w))"

subsection \<open>\<^verbatim>\<open>GET {project_id}/apps\<close>\<close>

text \<open>
  The loop \<^verbatim>\<open>for app in stored_apps\<close> with its accumulator \<^verbatim>\<open>final\<close>. There is no
  \<^verbatim>\<open>try\<close> around \<^verbatim>\<open>fnclient.apps.show\<close>.
\<close>

fun list_loop ::
  "('r, 'f) fnclient \<Rightarrow> app list \<Rightarrow> 'f view list \<Rightarrow> 'r world \<Rightarrow> (exn + 'f view list) \<times> 'r world"
where
  "list_loop c [] final w = (Inr final, w)"
| "list_loop c (a # stored_apps) final w =
     (case fn_show c (name a) w of
        (Inl ex, w1) \<Rightarrow> (Inl ex, w1)
      | (Inr fn_app, w1) \<Rightarrow> list_loop c stored_apps (final @ [AppView a fn_app]) w1)"

definition list_body :: "('r, 'f) fnclient \<Rightarrow> string \<Rightarrow> 'r world \<Rightarrow> ('r, 'f) handled" where
  "list_body c pid w =
     (case Apps_find_by pid None w of
        (stored_apps, w1) \<Rightarrow>
          (case list_loop c stored_apps [] w1 of
             (Inl ex, w2) \<Rightarrow> (Inl ex, w2)
           | (Inr final, w2) \<Rightarrow>
               (Inr (json_response (AppsBody final ''Successfully listed applications'') 200), w2)))"

definition list_apps ::
  "(exn \<Rightarrow> string) \<Rightarrow> ('r, 'f) fnclient \<Rightarrow> string \<Rightarrow> 'r world \<Rightarrow> ('r, 'f) handled" where
  "list_apps error_text c pid w = api_action error_text (list_body c pid w)"

subsection \<open>\<^verbatim>\<open>POST {project_id}/apps\<close>\<close>

text \<open>\<^verbatim>\<open>"{}-{}".format(data["app"]["name"], project_id)[:30]\<close>\<close>

definition derived_name :: "string \<Rightarrow> string \<Rightarrow> string" where
  "derived_name n pid = take 30 (n @ ''-'' @ pid)"

text \<open>\<^verbatim>\<open>data["app"].get("description", "App for project {}".format(project_id))\<close>\<close>

definition get_description :: "json_obj \<Rightarrow> string \<Rightarrow> string" where
  "get_description a pid =
     (case a ''description'' of None \<Rightarrow> ''App for project '' @ pid | Some d \<Rightarrow> d)"

definition create_body ::
  "('r, 'f) fnclient \<Rightarrow> string \<Rightarrow> request_json \<Rightarrow> 'r world \<Rightarrow> ('r, 'f) handled" where
  "create_body c pid req w =
     (case req of
        Inl ex \<Rightarrow> (Inl ex, w)
      | Inr d \<Rightarrow>
     (case d ''app'' of
        None \<Rightarrow> (Inl (KeyError ''app''), w)
      | Some a \<Rightarrow>
          (case a ''name'' of
             None \<Rightarrow> (Inl (KeyError ''name''), w)
           | Some n \<Rightarrow>
               (let app_name = derived_name n pid in
                case Apps_exists app_name pid w of
                  (found, w1) \<Rightarrow>
                    if found then
                      (Inr (json_response
                              (ErrorBody (''App '' @ app_name @ '' already exists'')) 409), w1)
                    else
                      (case fn_create c app_name w1 of
                         (Inl ex, w2) \<Rightarrow> (Inl ex, w2)
                       | (Inr fn_app, w2) \<Rightarrow>
                           (case Apps_save \<lparr>name = app_name, project_id = pid,
                                            description = get_description a pid\<rparr> w2 of
                              (stored_app, w3) \<Rightarrow>
                                (Inr (json_response
                                        (AppBody (AppView stored_app fn_app)
                                           ''App successfully created'') 200), w3)))))))"

definition create ::
  "(exn \<Rightarrow> string) \<Rightarrow> ('r, 'f) fnclient \<Rightarrow> string \<Rightarrow> request_json \<Rightarrow> 'r world \<Rightarrow>
   ('r, 'f) handled" where
  "create error_text c pid req w = api_action error_text (create_body c pid req w)"

subsection \<open>\<^verbatim>\<open>GET {project_id}/apps/{app}\<close>\<close>

definition not_found :: "string \<Rightarrow> 'f response" where
  "not_found n = json_response (ErrorBody (''App '' @ n @ '' not found'')) 404"

text \<open>The response of the handlers' own \<^verbatim>\<open>except Exception as ex\<close> clauses.\<close>

definition remote_error :: "exn \<Rightarrow> 'f response" where
  "remote_error ex = json_response (ErrorBody (getattr_reason ex)) (getattr_status ex)"

definition get_body ::
  "('r, 'f) fnclient \<Rightarrow> string \<Rightarrow> string \<Rightarrow> 'r world \<Rightarrow> ('r, 'f) handled" where
  "get_body c pid n w =
     (case Apps_exists n pid w of
        (found, w1) \<Rightarrow>
          if \<not> found then (Inr (not_found n), w1)
          else
            (case Apps_find_by pid (Some n) w1 of
               (rows, w2) \<Rightarrow>
                 (case pop rows of
                    Inl ex \<Rightarrow> (Inl ex, w2)
                  | Inr stored_app \<Rightarrow>
                      (case fn_show c n w2 of
                         (Inl ex, w3) \<Rightarrow> (Inr (remote_error ex), w3)
                       | (Inr fn_app, w3) \<Rightarrow>
                           (Inr (json_response
                                   (AppBody (AppView stored_app fn_app)
                                      ''Successfully loaded app'') 200), w3)))))"

definition get ::
  "(exn \<Rightarrow> string) \<Rightarrow> ('r, 'f) fnclient \<Rightarrow> string \<Rightarrow> string \<Rightarrow> 'r world \<Rightarrow>
   ('r, 'f) handled" where
  "get error_text c pid n w = api_action error_text (get_body c pid n w)"

subsection \<open>\<^verbatim>\<open>PUT {project_id}/apps/{app}\<close>\<close>

text \<open>\<^verbatim>\<open>data = await request.json()\<close> comes before the existence check.\<close>

definition update_body ::
  "('r, 'f) fnclient \<Rightarrow> string \<Rightarrow> string \<Rightarrow> request_json \<Rightarrow> 'r world \<Rightarrow> ('r, 'f) handled"
where
  "update_body c pid app_name req w =
     (case req of
        Inl ex \<Rightarrow> (Inl ex, w)
      | Inr d \<Rightarrow>
     (case Apps_exists app_name pid w of
        (found, w1) \<Rightarrow>
          if \<not> found then (Inr (not_found app_name), w1)
          else
            (case fn_update c app_name d w1 of
               (Inl ex, w2) \<Rightarrow> (Inr (remote_error ex), w2)
             | (Inr fn_app, w2) \<Rightarrow>
                 (case Apps_find_by pid (Some app_name) w2 of
                    (rows, w3) \<Rightarrow>
                      (case pop rows of
                         Inl ex \<Rightarrow> (Inl ex, w3)
                       | Inr stored_app \<Rightarrow>
                           (Inr (json_response
                                   (AppBody (AppView stored_app fn_app)
                                      ''App successfully updated'') 200), w3))))))"

definition update ::
  "(exn \<Rightarrow> string) \<Rightarrow> ('r, 'f) fnclient \<Rightarrow> string \<Rightarrow> string \<Rightarrow> request_json \<Rightarrow> 'r world \<Rightarrow>
   ('r, 'f) handled" where
  "update error_text c pid app_name req w =
     api_action error_text (update_body c pid app_name req w)"

subsection \<open>\<^verbatim>\<open>DELETE {project_id}/apps/{app}\<close>\<close>

definition delete_body ::
  "('r, 'f) fnclient \<Rightarrow> string \<Rightarrow> string \<Rightarrow> 'r world \<Rightarrow> ('r, 'f) handled" where
  "delete_body c pid n w =
     (case Apps_exists n pid w of
        (found, w1) \<Rightarrow>
          if \<not> found then (Inr (not_found n), w1)
          else
            (case fn_show c n w1 of
               (Inl ex, w2) \<Rightarrow> (Inr (remote_error ex), w2)
             | (Inr fn_app, w2) \<Rightarrow>
                 (case fn_routes_list c n fn_app w2 of
                    (Inl ex, w3) \<Rightarrow> (Inr (remote_error ex), w3)
                  | (Inr fn_app_routes, w3) \<Rightarrow>
                      if fn_app_routes \<noteq> [] then
                        (Inr (json_response
                                (ErrorBody (''Unable to delete app '' @ n @ '' with routes''))
                                403), w3)
                      else
                        (case fn_delete c n (Apps_delete pid n w3) of
                           (Inl ex, w5) \<Rightarrow> (Inl ex, w5)
                         | (Inr u, w5) \<Rightarrow>
                             (Inr (json_response
                                     (MessageBody ''App successfully deleted'') 200), w5)))))"

definition delete ::
  "(exn \<Rightarrow> string) \<Rightarrow> ('r, 'f) fnclient \<Rightarrow> string \<Rightarrow> string \<Rightarrow> 'r world \<Rightarrow>
   ('r, 'f) handled" where
  "delete error_text c pid n w = api_action error_text (delete_body c pid n w)"

section \<open>A functions platform in memory and sample requests\<close>

text \<open>
  The handlers above are stated for any functions client. To run them on concrete
  requests, here is a small platform that follows the collaborator interface of the
  spec: it stores each remote app under its name with its list of routes, \<open>show\<close>,
  \<open>routes.list\<close> and \<open>update\<close> fail with status 404 on an unknown name, \<open>create\<close> fails
  with status 409 on a known one. The remote app object handed back is the app's name.
  Passing a body with the key \<^verbatim>\<open>loop\<close> to \<^verbatim>\<open>apps.update(app_name, loop=..., **data)\<close>
  is a duplicate keyword argument: a \<^verbatim>\<open>TypeError\<close>, which has neither a \<^verbatim>\<open>status\<close> nor
  a \<^verbatim>\<open>reason\<close>.
\<close>

type_synonym mem_remote = "(string \<times> route list) list"

definition no_such_app :: exn where
  "no_such_app =
     \<lparr>ex_status = Some 404, ex_reason = Some ''App not found'', ex_str = ''FnError(404)''\<rparr>"

definition app_taken :: exn where
  "app_taken =
     \<lparr>ex_status = Some 409, ex_reason = Some ''App already exists'', ex_str = ''FnError(409)''\<rparr>"

definition unavailable :: exn where
  "unavailable =
     \<lparr>ex_status = Some 503, ex_reason = Some ''Service Unavailable'',
      ex_str = ''FnError(503)''\<rparr>"

definition duplicate_keyword :: exn where
  "duplicate_keyword =
     \<lparr>ex_status = None, ex_reason = None,
      ex_str = ''update() got multiple values for keyword argument loop''\<rparr>"

definition mem_fnclient :: "(mem_remote, string) fnclient" where
  "mem_fnclient =
     \<lparr>apps_show = (\<lambda>n r. case map_of r n of None \<Rightarrow> Inl no_such_app | Some rs \<Rightarrow> Inr n),
      routes_list = (\<lambda>f r. case map_of r f of None \<Rightarrow> Inl no_such_app | Some rs \<Rightarrow> Inr rs),
      apps_create = (\<lambda>n r. case map_of r n of
                              None \<Rightarrow> (Inr n, r @ [(n, [])])
                            | Some rs \<Rightarrow> (Inl app_taken, r)),
      apps_update = (\<lambda>n d r. case d ''loop'' of
                                Some x \<Rightarrow> (Inl duplicate_keyword, r)
                              | None \<Rightarrow>
                                  (case map_of r n of
                                     None \<Rightarrow> (Inl no_such_app, r)
                                   | Some rs \<Rightarrow> (Inr n, r))),
      apps_delete = (\<lambda>n r. (Inr (), filter (\<lambda>kv. fst kv \<noteq> n) r))\<rparr>"

text \<open>The same platform while it cannot delete: \<open>apps.delete\<close> raises with status 503.\<close>

definition stuck_fnclient :: "(mem_remote, string) fnclient" where
  "stuck_fnclient = mem_fnclient\<lparr>apps_delete := (\<lambda>n r. (Inl unavailable, r))\<rparr>"

text \<open>
  In the runs below the decorator's text for an exception is \<open>getattr_reason\<close>, the
  text the handlers' own \<^verbatim>\<open>except\<close> clauses use.

  The request bodies \<^verbatim>\<open>{"app": {"name": "billing"}}\<close> and friends, and what decoding
  an empty body raises: \<^verbatim>\<open>json.loads('')\<close> fails with a \<^verbatim>\<open>JSONDecodeError\<close>, which has
  neither a \<^verbatim>\<open>status\<close> nor a \<^verbatim>\<open>reason\<close>.
\<close>

definition json_decode_error :: exn where
  "json_decode_error =
     \<lparr>ex_status = None, ex_reason = None,
      ex_str = ''Expecting value: line 1 column 1 (char 0)''\<rparr>"

definition billing_body :: json_body where
  "billing_body = [''app'' \<mapsto> [''name'' \<mapsto> ''billing'']]"

definition described_body :: json_body where
  "described_body = [''app'' \<mapsto> [''name'' \<mapsto> ''billing'', ''description'' \<mapsto> ''Invoices'']]"

definition long_body :: json_body where
  "long_body = [''app'' \<mapsto> [''name'' \<mapsto> ''customer-billing-service'']]"

definition loop_body :: json_body where
  "loop_body = [''loop'' \<mapsto> Map.empty]"

definition billing_app :: app where
  "billing_app =
     \<lparr>name = ''billing-p1'', project_id = ''p1'', description = ''App for project p1''\<rparr>"

definition shop_app :: app where
  "shop_app = \<lparr>name = ''shop-p1'', project_id = ''p1'', description = ''Shop''\<rparr>"

definition older_twin :: app where
  "older_twin = \<lparr>name = ''twin-p1'', project_id = ''p1'', description = ''older''\<rparr>"

definition newer_twin :: app where
  "newer_twin = \<lparr>name = ''twin-p1'', project_id = ''p1'', description = ''newer''\<rparr>"

definition empty_world :: "mem_remote world" where
  "empty_world = \<lparr>registry = [], remote = [], calls = []\<rparr>"

definition billing_world :: "mem_remote world" where
  "billing_world = \<lparr>registry = [billing_app], remote = [(''billing-p1'', [])], calls = []\<rparr>"

text \<open>The remote app has two routes.\<close>

definition routed_world :: "mem_remote world" where
  "routed_world =
     \<lparr>registry = [billing_app], remote = [(''billing-p1'', [''/invoice'', ''/refund''])],
      calls = []\<rparr>"

text \<open>The local record has no remote app: one of the partial states the two stores allow.\<close>

definition orphan_world :: "mem_remote world" where
  "orphan_world = \<lparr>registry = [billing_app], remote = [], calls = []\<rparr>"

text \<open>Two local records, the second without its remote app.\<close>

definition half_world :: "mem_remote world" where
  "half_world =
     \<lparr>registry = [billing_app, shop_app], remote = [(''billing-p1'', [])], calls = []\<rparr>"

text \<open>
  Two local records under one \<open>(project_id, name)\<close>, as two racing \<^verbatim>\<open>create\<close> requests
  leave them.
\<close>

definition twin_world :: "mem_remote world" where
  "twin_world =
     \<lparr>registry = [older_twin, newer_twin], remote = [(''twin-p1'', [])], calls = []\<rparr>"

section \<open>Auxiliary facts\<close>

lemmas calls_defs =
  Apps_exists_def Apps_find_by_def Apps_save_def Apps_delete_def
  fn_show_def fn_routes_list_def fn_create_def fn_update_def fn_delete_def log_call_def

lemmas body_defs =
  list_body_def create_body_def get_body_def update_body_def delete_body_def

lemmas handler_defs =
  list_apps_def create_def get_def update_def delete_def api_action_def

text \<open>Everything a run of a handler on a concrete request unfolds.\<close>

lemmas run_defs =
  handler_defs body_defs calls_defs find_by_def matches_def
  json_response_def not_found_def remote_error_def getattr_status_def getattr_reason_def
  derived_name_def get_description_def AppView_def KeyError_def IndexError_def Let_def

lemma find_by_nonempty:
  "a \<in> set rows \<Longrightarrow> project_id a = pid \<Longrightarrow> name a = n \<Longrightarrow> find_by pid (Some n) rows \<noteq> []"
  by (auto simp: find_by_def matches_def filter_empty_conv)

lemma find_by_empty:
  "\<forall>a\<in>set rows. \<not> (project_id a = pid \<and> name a = n) \<Longrightarrow> find_by pid (Some n) rows = []"
  by (auto simp: find_by_def matches_def filter_empty_conv)

lemma find_by_single:
  "find_by pid (Some n) rows = [] \<Longrightarrow> project_id a = pid \<Longrightarrow> name a = n \<Longrightarrow>
   find_by pid (Some n) (rows @ [a]) = [a]"
  by (simp add: find_by_def matches_def)

lemma pop_last: "rows \<noteq> [] \<Longrightarrow> pop rows = Inr (last rows)"
  by (cases rows) simp_all

text \<open>
  The decorator answers with an error body only. So a \<^verbatim>\<open>create\<close> that answers with the
  view of an app has come through the body to its last line: it found no record of
  the derived name, and it has written one.
\<close>

lemma create_fresh:
  assumes "d ''app'' = Some a" and "a ''name'' = Some n"
    and "create error_text c pid (Inr d) w = (Inr r, w')" and "data r = AppBody v m"
  shows "find_by pid (Some (derived_name n pid)) (registry w) = []"
    and "registry w' = registry w @
           [\<lparr>name = derived_name n pid, project_id = pid, description = get_description a pid\<rparr>]"
    and "status r = 200"
  using assms
  by (auto simp: create_def create_body_def api_action_def calls_defs json_response_def Let_def
           split: if_splits sum.splits prod.splits)

text \<open>
  The loop of \<^verbatim>\<open>list\<close> stops at the first stored app whose remote lookup raises: the
  exception leaves the loop, the apps after it are not looked up and the views
  collected so far are dropped.
\<close>

lemma list_loop_raises:
  assumes "\<forall>b\<in>set pre. \<exists>f. apps_show c (name b) (remote w) = Inr f"
    and "apps_show c (name a) (remote w) = Inl ex"
  shows "list_loop c (pre @ a # post) final w =
           (Inl ex, w\<lparr>calls := calls w @ map (\<lambda>b. FnShow (name b)) (pre @ [a])\<rparr>)"
  using assms
proof (induction pre arbitrary: final w)
  case Nil
  then show ?case by (simp add: fn_show_def log_call_def)
next
  case (Cons b pre)
  from Cons.prems(1) obtain f where f: "apps_show c (name b) (remote w) = Inr f"
    by auto
  let ?w1 = "log_call (FnShow (name b)) w"
  have "list_loop c (pre @ a # post) (final @ [AppView b f]) ?w1 =
          (Inl ex, ?w1\<lparr>calls := calls ?w1 @ map (\<lambda>b. FnShow (name b)) (pre @ [a])\<rparr>)"
    using Cons.prems by (intro Cons.IH) (simp_all add: log_call_def)
  then show ?case
    using f by (simp add: fn_show_def log_call_def)
qed

lemma list_body_raises:
  assumes "find_by pid None (registry w) = pre @ a # post"
    and "\<forall>b\<in>set pre. \<not> isl (apps_show c (name b) (remote w))"
    and "apps_show c (name a) (remote w) = Inl ex"
  shows "list_body c pid w =
           (Inl ex,
            w\<lparr>calls := calls w @ RegFindBy pid None # map (\<lambda>b. FnShow (name b)) (pre @ [a])\<rparr>)"
proof -
  let ?w1 = "log_call (RegFindBy pid None) w"
  have "\<forall>b\<in>set pre. \<exists>f. apps_show c (name b) (remote ?w1) = Inr f"
  proof
    fix b assume "b \<in> set pre"
    with assms(2) have "\<not> isl (apps_show c (name b) (remote w))" by blast
    then show "\<exists>f. apps_show c (name b) (remote ?w1) = Inr f"
      by (cases "apps_show c (name b) (remote w)") (simp_all add: log_call_def)
  qed
  moreover have "apps_show c (name a) (remote ?w1) = Inl ex"
    using assms(3) by (simp add: log_call_def)
  ultimately have "list_loop c (pre @ a # post) [] ?w1 =
      (Inl ex, ?w1\<lparr>calls := calls ?w1 @ map (\<lambda>b. FnShow (name b)) (pre @ [a])\<rparr>)"
    by (rule list_loop_raises)
  then show ?thesis
    by (simp add: list_body_def Apps_find_by_def assms(1) log_call_def)
qed

section \<open>The claims\<close>

subsection \<open>Create\<close>

text \<open>
  Claim C1. A create request whose derived name, \<open>name-project_id\<close> cut to 30
  characters, is already the name of a local record of the project, is answered with
  status 409 and the message "App ... already exists". The only call made is the existence
  check: the platform's \<open>apps.create\<close> is not called, and both stores are as before.
\<close>

theorem create_conflict:
  assumes "d ''app'' = Some a" and "a ''name'' = Some n"
    and "a0 \<in> set (registry w)"
    and "name a0 = take 30 (n @ ''-'' @ pid)" and "project_id a0 = pid"
  shows "create error_text c pid (Inr d) w =
           (Inr \<lparr>data = ErrorBody (''App '' @ take 30 (n @ ''-'' @ pid) @ '' already exists''),
                 status = 409\<rparr>,
            w\<lparr>calls := calls w @ [RegExists (take 30 (n @ ''-'' @ pid)) pid]\<rparr>)"
proof -
  have "find_by pid (Some (derived_name n pid)) (registry w) \<noteq> []"
    using assms(3-5) by (intro find_by_nonempty[of a0]) (simp_all add: derived_name_def)
  then show ?thesis
    using assms(1,2)
    by (simp add: create_def create_body_def api_action_def calls_defs json_response_def
          derived_name_def)
qed

theorem create_conflict_witness:
  "billing_app \<in> set (registry billing_world) \<and>
   create getattr_reason mem_fnclient ''p1'' (Inr billing_body) billing_world =
     (Inr \<lparr>data = ErrorBody ''App billing-p1 already exists'', status = 409\<rparr>,
      \<lparr>registry = [billing_app], remote = [(''billing-p1'', [])],
       calls = [RegExists ''billing-p1'' ''p1'']\<rparr>)"
proof -
  have app: "billing_body ''app'' = Some [''name'' \<mapsto> ''billing'']"
    by (simp add: billing_body_def)
  have nm: "[''name'' \<mapsto> ''billing''] ''name'' = Some ''billing''"
    by simp
  have row: "billing_app \<in> set (registry billing_world)"
    by (simp add: billing_world_def)
  have row_name: "name billing_app = take 30 (''billing'' @ ''-'' @ ''p1'')"
    by (simp add: billing_app_def)
  have row_project: "project_id billing_app = ''p1''"
    by (simp add: billing_app_def)
  from create_conflict [where d = billing_body and a = "[''name'' \<mapsto> ''billing'']"
      and c = mem_fnclient and error_text = getattr_reason,
      OF app nm row row_name row_project] row
  show ?thesis
    by (simp add: billing_world_def)
qed

text \<open>
  Claim C3. When create stores a record, which it does exactly when it answers with
  the view of an app, the answer has status 200, the record is appended to the
  registry and its name is \<open>name-project_id\<close> cut to 30 characters: never longer than
  30, and exactly the first 30 characters when the concatenation is longer.
\<close>

theorem create_stored_name:
  assumes "d ''app'' = Some a" and "a ''name'' = Some n"
    and "create error_text c pid (Inr d) w = (Inr r, w')" and "data r = AppBody v m"
  shows "status r = 200 \<and>
         (\<exists>stored_app.
            registry w' = registry w @ [stored_app] \<and>
            name stored_app = take 30 (n @ ''-'' @ pid) \<and>
            length (name stored_app) \<le> 30 \<and>
            (30 < length (n @ ''-'' @ pid) \<longrightarrow> length (name stored_app) = 30))"
proof -
  let ?s = "\<lparr>name = derived_name n pid, project_id = pid,
             description = get_description a pid\<rparr>"
  have "registry w' = registry w @ [?s]"
    using create_fresh(2)[OF assms] .
  moreover have "name ?s = take 30 (n @ ''-'' @ pid)"
    by (simp add: derived_name_def)
  moreover have "length (name ?s) \<le> 30"
    by (simp add: derived_name_def)
  moreover have "30 < length (n @ ''-'' @ pid) \<longrightarrow> length (name ?s) = 30"
    by (simp add: derived_name_def del: take_append)
  moreover have "status r = 200"
    using create_fresh(3)[OF assms] .
  ultimately show ?thesis by blast
qed

text \<open>
  The name \<open>customer-billing-service-project-42\<close> has 35 characters; the stored name is
  its first 30.
\<close>

theorem create_stored_name_witness:
  "create getattr_reason mem_fnclient ''project-42'' (Inr long_body) empty_world =
     (Inr \<lparr>data = AppBody
              \<lparr>view_app = \<lparr>name = ''customer-billing-service-proje'',
                            project_id = ''project-42'',
                            description = ''App for project project-42''\<rparr>,
               view_fn_app = ''customer-billing-service-proje''\<rparr>
              ''App successfully created'',
            status = 200\<rparr>,
      \<lparr>registry = [\<lparr>name = ''customer-billing-service-proje'', project_id = ''project-42'',
                     description = ''App for project project-42''\<rparr>],
       remote = [(''customer-billing-service-proje'', [])],
       calls = [RegExists ''customer-billing-service-proje'' ''project-42'',
                FnCreate ''customer-billing-service-proje'',
                RegSave \<lparr>name = ''customer-billing-service-proje'',
                         project_id = ''project-42'',
                         description = ''App for project project-42''\<rparr>]\<rparr>) \<and>
   30 < length (''customer-billing-service'' @ ''-'' @ ''project-42'') \<and>
   (\<exists>stored_app.
      [\<lparr>name = ''customer-billing-service-proje'', project_id = ''project-42'',
        description = ''App for project project-42''\<rparr>] = registry empty_world @ [stored_app] \<and>
      name stored_app = take 30 (''customer-billing-service'' @ ''-'' @ ''project-42'') \<and>
      length (name stored_app) = 30)"
proof -
  let ?v = "\<lparr>view_app = \<lparr>name = ''customer-billing-service-proje'',
                            project_id = ''project-42'',
                            description = ''App for project project-42''\<rparr>,
             view_fn_app = ''customer-billing-service-proje''\<rparr>"
  let ?r = "\<lparr>data = AppBody ?v ''App successfully created'', status = 200\<rparr>"
  let ?w = "\<lparr>registry = [\<lparr>name = ''customer-billing-service-proje'',
                           project_id = ''project-42'',
                           description = ''App for project project-42''\<rparr>],
             remote = [(''customer-billing-service-proje'', [])],
             calls = [RegExists ''customer-billing-service-proje'' ''project-42'',
                      FnCreate ''customer-billing-service-proje'',
                      RegSave \<lparr>name = ''customer-billing-service-proje'',
                               project_id = ''project-42'',
                               description = ''App for project project-42''\<rparr>]\<rparr>"
  have run: "create getattr_reason mem_fnclient ''project-42'' (Inr long_body) empty_world =
      (Inr ?r, ?w)"
    by (simp add: run_defs mem_fnclient_def long_body_def empty_world_def)
  have app: "long_body ''app'' = Some [''name'' \<mapsto> ''customer-billing-service'']"
    by (simp add: long_body_def)
  have nm: "[''name'' \<mapsto> ''customer-billing-service''] ''name'' =
      Some ''customer-billing-service''"
    by simp
  have shown: "data ?r = AppBody ?v ''App successfully created''"
    by simp
  from create_stored_name [where d = long_body
      and a = "[''name'' \<mapsto> ''customer-billing-service'']", OF app nm run shown] run
  show ?thesis
    by auto
qed

text \<open>
  Claim C6. After a create that answers with the view of the new app, a get on the
  derived name, in the world the create left and with the platform's lookup of the new
  app returning, answers 200 with a view of the record just stored: the derived name,
  the project, and the submitted description, or "App for project ..." when the body
  had none.
\<close>

theorem create_then_get:
  assumes "d ''app'' = Some a" and "a ''name'' = Some n"
    and "create error_text c pid (Inr d) w = (Inr r, w')" and "data r = AppBody v m"
    and "apps_show c (take 30 (n @ ''-'' @ pid)) (remote w') = Inr fn_app"
  shows "status r = 200 \<and>
         fst (get error_text c pid (take 30 (n @ ''-'' @ pid)) w') =
           Inr \<lparr>data = AppBody
                   \<lparr>view_app =
                      \<lparr>name = take 30 (n @ ''-'' @ pid), project_id = pid,
                       description = (case a ''description'' of
                                        None \<Rightarrow> ''App for project '' @ pid
                                      | Some x \<Rightarrow> x)\<rparr>,
                    view_fn_app = fn_app\<rparr>
                   ''Successfully loaded app'',
                 status = 200\<rparr>"
proof -
  let ?m = "derived_name n pid"
  let ?s = "\<lparr>name = ?m, project_id = pid, description = get_description a pid\<rparr>"
  have "find_by pid (Some ?m) (registry w') = [?s]"
    unfolding create_fresh(2)[OF assms(1-4)]
    using create_fresh(1)[OF assms(1-4)] by (intro find_by_single) simp_all
  moreover have "apps_show c ?m (remote w') = Inr fn_app"
    using assms(5) by (simp only: derived_name_def)
  ultimately have "fst (get error_text c pid ?m w') =
      Inr \<lparr>data = AppBody \<lparr>view_app = ?s, view_fn_app = fn_app\<rparr> ''Successfully loaded app'',
            status = 200\<rparr>"
    by (simp add: get_def get_body_def api_action_def calls_defs json_response_def AppView_def)
  then have "fst (get error_text c pid (take 30 (n @ ''-'' @ pid)) w') =
      Inr \<lparr>data = AppBody
              \<lparr>view_app =
                 \<lparr>name = take 30 (n @ ''-'' @ pid), project_id = pid,
                  description = (case a ''description'' of
                                   None \<Rightarrow> ''App for project '' @ pid
                                 | Some x \<Rightarrow> x)\<rparr>,
               view_fn_app = fn_app\<rparr>
              ''Successfully loaded app'',
            status = 200\<rparr>"
    by (simp only: derived_name_def get_description_def)
  with create_fresh(3)[OF assms(1-4)] show ?thesis
    by simp
qed

text \<open>
  \<^verbatim>\<open>POST /p1/apps\<close> with \<^verbatim>\<open>{"app": {"name": "billing"}}\<close>, then
  \<^verbatim>\<open>GET /p1/apps/billing-p1\<close>: the body has no description.
\<close>

theorem create_then_get_witness:
  "create getattr_reason mem_fnclient ''p1'' (Inr billing_body) empty_world =
     (Inr \<lparr>data = AppBody \<lparr>view_app = billing_app, view_fn_app = ''billing-p1''\<rparr>
              ''App successfully created'',
            status = 200\<rparr>,
      \<lparr>registry = [billing_app], remote = [(''billing-p1'', [])],
       calls = [RegExists ''billing-p1'' ''p1'', FnCreate ''billing-p1'',
                RegSave billing_app]\<rparr>) \<and>
   fst (get getattr_reason mem_fnclient ''p1'' ''billing-p1''
          \<lparr>registry = [billing_app], remote = [(''billing-p1'', [])],
           calls = [RegExists ''billing-p1'' ''p1'', FnCreate ''billing-p1'',
                    RegSave billing_app]\<rparr>) =
     Inr \<lparr>data = AppBody
             \<lparr>view_app = \<lparr>name = ''billing-p1'', project_id = ''p1'',
                           description = ''App for project p1''\<rparr>,
              view_fn_app = ''billing-p1''\<rparr>
             ''Successfully loaded app'',
           status = 200\<rparr>"
proof -
  let ?v = "\<lparr>view_app = billing_app, view_fn_app = ''billing-p1''\<rparr>"
  let ?r = "\<lparr>data = AppBody ?v ''App successfully created'', status = 200\<rparr>"
  let ?w = "\<lparr>registry = [billing_app], remote = [(''billing-p1'', [])],
             calls = [RegExists ''billing-p1'' ''p1'', FnCreate ''billing-p1'',
                      RegSave billing_app]\<rparr>"
  have run: "create getattr_reason mem_fnclient ''p1'' (Inr billing_body) empty_world =
      (Inr ?r, ?w)"
    by (simp add: run_defs mem_fnclient_def billing_body_def billing_app_def empty_world_def)
  have app: "billing_body ''app'' = Some [''name'' \<mapsto> ''billing'']"
    by (simp add: billing_body_def)
  have nm: "[''name'' \<mapsto> ''billing''] ''name'' = Some ''billing''"
    by simp
  have viewed: "data ?r = AppBody ?v ''App successfully created''"
    by simp
  have shown: "apps_show mem_fnclient (take 30 (''billing'' @ ''-'' @ ''p1'')) (remote ?w) =
      Inr ''billing-p1''"
    by (simp add: mem_fnclient_def)
  from create_then_get [where d = billing_body and a = "[''name'' \<mapsto> ''billing'']",
      OF app nm run viewed shown] run
  show ?thesis
    by simp
qed

subsection \<open>Get, update and delete without a local record\<close>

text \<open>
  Claim C4, as the code has it. When no local record has the requested project and
  name, get and delete answer 404 with the message "App ... not found", and so does an
  update whose request body decodes; the existence check is the only call they make,
  and the functions platform is not called.
\<close>

theorem missing_record_404:
  assumes "\<forall>a\<in>set (registry w). \<not> (project_id a = pid \<and> name a = n)"
  shows "get error_text c pid n w =
           (Inr \<lparr>data = ErrorBody (''App '' @ n @ '' not found''), status = 404\<rparr>,
            w\<lparr>calls := calls w @ [RegExists n pid]\<rparr>) \<and>
         update error_text c pid n (Inr d) w =
           (Inr \<lparr>data = ErrorBody (''App '' @ n @ '' not found''), status = 404\<rparr>,
            w\<lparr>calls := calls w @ [RegExists n pid]\<rparr>) \<and>
         delete error_text c pid n w =
           (Inr \<lparr>data = ErrorBody (''App '' @ n @ '' not found''), status = 404\<rparr>,
            w\<lparr>calls := calls w @ [RegExists n pid]\<rparr>)"
  using find_by_empty[OF assms]
  by (simp add: handler_defs get_body_def update_body_def delete_body_def calls_defs
        not_found_def json_response_def)

text \<open>The record \<open>billing-p1\<close> belongs to project \<open>p1\<close>; project \<open>p2\<close> has none.\<close>

theorem missing_record_404_witness:
  "registry billing_world = [billing_app] \<and> project_id billing_app = ''p1'' \<and>
   get getattr_reason mem_fnclient ''p2'' ''billing-p1'' billing_world =
     (Inr \<lparr>data = ErrorBody ''App billing-p1 not found'', status = 404\<rparr>,
      billing_world\<lparr>calls := [RegExists ''billing-p1'' ''p2'']\<rparr>) \<and>
   update getattr_reason mem_fnclient ''p2'' ''billing-p1'' (Inr described_body) billing_world =
     (Inr \<lparr>data = ErrorBody ''App billing-p1 not found'', status = 404\<rparr>,
      billing_world\<lparr>calls := [RegExists ''billing-p1'' ''p2'']\<rparr>) \<and>
   delete getattr_reason mem_fnclient ''p2'' ''billing-p1'' billing_world =
     (Inr \<lparr>data = ErrorBody ''App billing-p1 not found'', status = 404\<rparr>,
      billing_world\<lparr>calls := [RegExists ''billing-p1'' ''p2'']\<rparr>)"
proof -
  have none: "\<forall>a\<in>set (registry billing_world).
      \<not> (project_id a = ''p2'' \<and> name a = ''billing-p1'')"
    by (simp add: billing_world_def billing_app_def)
  from missing_record_404 [OF none, where c = mem_fnclient and d = described_body
      and error_text = getattr_reason]
  show ?thesis
    by (simp add: billing_world_def billing_app_def)
qed

text \<open>
  An update reads its body before it looks for the record. \<^verbatim>\<open>PUT /p2/apps/billing-p1\<close>
  with an empty body, where project \<open>p2\<close> has no record: decoding raises, the answer has
  status 500 and not 404, and no call is made at all.
\<close>

theorem update_undecoded_counterexample:
  "find_by ''p2'' (Some ''billing-p1'') (registry billing_world) = [] \<and>
   update getattr_reason mem_fnclient ''p2'' ''billing-p1'' (Inl json_decode_error)
       billing_world =
     (Inr \<lparr>data = ErrorBody ''Expecting value: line 1 column 1 (char 0)'', status = 500\<rparr>,
      billing_world) \<and>
   status (projr (fst (update getattr_reason mem_fnclient ''p2'' ''billing-p1''
                         (Inl json_decode_error) billing_world))) \<noteq> 404"
  by (simp add: run_defs billing_world_def billing_app_def json_decode_error_def)

subsection \<open>Remote failures in get and update\<close>

text \<open>
  Claim C5. When the local record exists and the platform's call raises (\<open>apps.show\<close> in
  get, \<open>apps.update\<close> in update), the handler answers with an error response: its status
  is the exception's \<open>status\<close> attribute, 500 when the exception has none, and its message
  is the exception's \<open>reason\<close> attribute, \<open>str(ex)\<close> when it has none.
\<close>

theorem remote_failure_mapped:
  assumes "a0 \<in> set (registry w)" and "name a0 = n" and "project_id a0 = pid"
  shows "(apps_show c n (remote w) = Inl ex \<longrightarrow>
            fst (get error_text c pid n w) =
              Inr \<lparr>data = ErrorBody (case ex_reason ex of None \<Rightarrow> ex_str ex | Some m \<Rightarrow> m),
                    status = (case ex_status ex of None \<Rightarrow> 500 | Some s \<Rightarrow> s)\<rparr>) \<and>
         (fst (apps_update c n d (remote w)) = Inl ex' \<longrightarrow>
            fst (update error_text c pid n (Inr d) w) =
              Inr \<lparr>data = ErrorBody (case ex_reason ex' of None \<Rightarrow> ex_str ex' | Some m \<Rightarrow> m),
                    status = (case ex_status ex' of None \<Rightarrow> 500 | Some s \<Rightarrow> s)\<rparr>)"
proof -
  have ne: "find_by pid (Some n) (registry w) \<noteq> []"
    using assms by (intro find_by_nonempty[of a0]) simp_all
  then show ?thesis
    by (simp add: handler_defs get_body_def update_body_def calls_defs remote_error_def
          json_response_def getattr_status_def getattr_reason_def pop_last)
qed

text \<open>
  The local record has no remote app, so \<open>show\<close> raises with status 404 and a reason;
  the update body has the key \<open>loop\<close>, so \<open>update\<close> raises without either attribute.
  The decorator's text plays no part: the answers are the same with the empty text.
\<close>

theorem remote_failure_mapped_witness:
  "billing_app \<in> set (registry orphan_world) \<and>
   apps_show mem_fnclient ''billing-p1'' (remote orphan_world) = Inl no_such_app \<and>
   fst (get (\<lambda>ex. []) mem_fnclient ''p1'' ''billing-p1'' orphan_world) =
     Inr \<lparr>data = ErrorBody ''App not found'', status = 404\<rparr> \<and>
   fst (apps_update mem_fnclient ''billing-p1'' loop_body (remote orphan_world)) =
     Inl duplicate_keyword \<and>
   fst (update (\<lambda>ex. []) mem_fnclient ''p1'' ''billing-p1'' (Inr loop_body) orphan_world) =
     Inr \<lparr>data = ErrorBody ''update() got multiple values for keyword argument loop'',
           status = 500\<rparr>"
proof -
  have row: "billing_app \<in> set (registry orphan_world)"
    by (simp add: orphan_world_def)
  have row_name: "name billing_app = ''billing-p1''"
    by (simp add: billing_app_def)
  have row_project: "project_id billing_app = ''p1''"
    by (simp add: billing_app_def)
  have show_raises:
    "apps_show mem_fnclient ''billing-p1'' (remote orphan_world) = Inl no_such_app"
    by (simp add: mem_fnclient_def orphan_world_def)
  have update_raises:
    "fst (apps_update mem_fnclient ''billing-p1'' loop_body (remote orphan_world)) =
       Inl duplicate_keyword"
    by (simp add: mem_fnclient_def loop_body_def)
  from remote_failure_mapped [OF row row_name row_project, where c = mem_fnclient
      and ex = no_such_app and d = loop_body and ex' = duplicate_keyword
      and error_text = "\<lambda>ex. []"]
    row show_raises update_raises
  show ?thesis
    by (simp add: no_such_app_def duplicate_keyword_def)
qed

subsection \<open>Delete\<close>

text \<open>
  Claim C2. When the local record exists and the remote app's route list is not empty,
  delete answers 403 and deletes nothing: the registry and the platform's state are
  as before, and the calls made are the existence check, \<open>apps.show\<close> and \<open>routes.list\<close>.
\<close>

theorem delete_with_routes:
  assumes "a0 \<in> set (registry w)" and "name a0 = n" and "project_id a0 = pid"
    and "apps_show c n (remote w) = Inr fn_app"
    and "routes_list c fn_app (remote w) = Inr fn_app_routes"
    and "fn_app_routes \<noteq> []"
  shows "delete error_text c pid n w =
           (Inr \<lparr>data = ErrorBody (''Unable to delete app '' @ n @ '' with routes''),
                 status = 403\<rparr>,
            w\<lparr>calls := calls w @ [RegExists n pid, FnShow n, FnRoutesList n]\<rparr>)"
proof -
  have "find_by pid (Some n) (registry w) \<noteq> []"
    using assms(1-3) by (intro find_by_nonempty[of a0]) simp_all
  then show ?thesis
    using assms(4-6)
    by (simp add: delete_def delete_body_def api_action_def calls_defs json_response_def)
qed

text \<open>\<^verbatim>\<open>DELETE /p1/apps/billing-p1\<close> when the remote app has two routes.\<close>

theorem delete_with_routes_witness:
  "billing_app \<in> set (registry routed_world) \<and>
   routes_list mem_fnclient ''billing-p1'' (remote routed_world) =
     Inr [''/invoice'', ''/refund''] \<and>
   delete getattr_reason mem_fnclient ''p1'' ''billing-p1'' routed_world =
     (Inr \<lparr>data = ErrorBody ''Unable to delete app billing-p1 with routes'', status = 403\<rparr>,
      \<lparr>registry = [billing_app], remote = [(''billing-p1'', [''/invoice'', ''/refund''])],
       calls = [RegExists ''billing-p1'' ''p1'', FnShow ''billing-p1'',
                FnRoutesList ''billing-p1'']\<rparr>)"
proof -
  have row: "billing_app \<in> set (registry routed_world)"
    by (simp add: routed_world_def)
  have row_name: "name billing_app = ''billing-p1''"
    by (simp add: billing_app_def)
  have row_project: "project_id billing_app = ''p1''"
    by (simp add: billing_app_def)
  have shown: "apps_show mem_fnclient ''billing-p1'' (remote routed_world) = Inr ''billing-p1''"
    by (simp add: mem_fnclient_def routed_world_def)
  have routes: "routes_list mem_fnclient ''billing-p1'' (remote routed_world) =
      Inr [''/invoice'', ''/refund'']"
    by (simp add: mem_fnclient_def routed_world_def)
  have some: "[''/invoice'', ''/refund''] \<noteq> []"
    by simp
  from delete_with_routes [OF row row_name row_project shown routes some,
      where error_text = getattr_reason] row routes
  show ?thesis
    by (simp add: routed_world_def)
qed

text \<open>
  Claim C8, as the code has it. A delete that reaches the deletion step (the local
  record exists, \<open>apps.show\<close> and \<open>routes.list\<close> return, the route list is empty) deletes
  the matching local records first and calls the platform's \<open>apps.delete\<close> second, and
  the log ends with the two calls in that order. When \<open>apps.delete\<close> returns, the answer
  is 200. When it raises, the local records are gone all the same, the platform's state
  is what the failed call leaves, and the answer is an error response with the
  exception's \<open>status\<close> attribute, 500 when it has none.
\<close>

theorem delete_order:
  assumes "a0 \<in> set (registry w)" and "name a0 = n" and "project_id a0 = pid"
    and "apps_show c n (remote w) = Inr fn_app"
    and "routes_list c fn_app (remote w) = Inr []"
  shows "snd (delete error_text c pid n w) =
           \<lparr>registry = filter (\<lambda>a. \<not> (project_id a = pid \<and> name a = n)) (registry w),
            remote = snd (apps_delete c n (remote w)),
            calls = calls w @ [RegExists n pid, FnShow n, FnRoutesList n,
                               RegDelete pid n, FnDelete n]\<rparr> \<and>
         fst (delete error_text c pid n w) =
           (case fst (apps_delete c n (remote w)) of
              Inl ex \<Rightarrow>
                Inr \<lparr>data = ErrorBody (error_text ex),
                      status = (case ex_status ex of None \<Rightarrow> 500 | Some s \<Rightarrow> s)\<rparr>
            | Inr u \<Rightarrow> Inr \<lparr>data = MessageBody ''App successfully deleted'', status = 200\<rparr>)"
proof -
  have "find_by pid (Some n) (registry w) \<noteq> []"
    using assms(1-3) by (intro find_by_nonempty[of a0]) simp_all
  then show ?thesis
    using assms(4,5)
    by (simp add: delete_def delete_body_def api_action_def calls_defs json_response_def
          getattr_status_def matches_def split: sum.splits)
qed

theorem delete_order_witness:
  "billing_app \<in> set (registry billing_world) \<and>
   routes_list mem_fnclient ''billing-p1'' (remote billing_world) = Inr [] \<and>
   delete getattr_reason mem_fnclient ''p1'' ''billing-p1'' billing_world =
     (Inr \<lparr>data = MessageBody ''App successfully deleted'', status = 200\<rparr>,
      \<lparr>registry = [], remote = [],
       calls = [RegExists ''billing-p1'' ''p1'', FnShow ''billing-p1'',
                FnRoutesList ''billing-p1'', RegDelete ''p1'' ''billing-p1'',
                FnDelete ''billing-p1'']\<rparr>)"
proof -
  have row: "billing_app \<in> set (registry billing_world)"
    by (simp add: billing_world_def)
  have row_name: "name billing_app = ''billing-p1''"
    by (simp add: billing_app_def)
  have row_project: "project_id billing_app = ''p1''"
    by (simp add: billing_app_def)
  have shown: "apps_show mem_fnclient ''billing-p1'' (remote billing_world) = Inr ''billing-p1''"
    by (simp add: mem_fnclient_def billing_world_def)
  have routes: "routes_list mem_fnclient ''billing-p1'' (remote billing_world) = Inr []"
    by (simp add: mem_fnclient_def billing_world_def)
  from delete_order [OF row row_name row_project shown routes,
      where error_text = getattr_reason] row routes
  show ?thesis
    by (simp add: billing_world_def billing_app_def mem_fnclient_def prod_eq_iff)
qed

text \<open>
  The deletion step with a platform that cannot delete: the local record is gone, the
  remote app is still there, and the answer is 503. One deletion is performed, not
  both.
\<close>

theorem delete_remote_stays_counterexample:
  "billing_app \<in> set (registry billing_world) \<and>
   apps_show stuck_fnclient ''billing-p1'' (remote billing_world) = Inr ''billing-p1'' \<and>
   routes_list stuck_fnclient ''billing-p1'' (remote billing_world) = Inr [] \<and>
   delete getattr_reason stuck_fnclient ''p1'' ''billing-p1'' billing_world =
     (Inr \<lparr>data = ErrorBody ''Service Unavailable'', status = 503\<rparr>,
      \<lparr>registry = [], remote = [(''billing-p1'', [])],
       calls = [RegExists ''billing-p1'' ''p1'', FnShow ''billing-p1'',
                FnRoutesList ''billing-p1'', RegDelete ''p1'' ''billing-p1'',
                FnDelete ''billing-p1'']\<rparr>) \<and>
   apps_show stuck_fnclient ''billing-p1''
     (remote (snd (delete getattr_reason stuck_fnclient ''p1'' ''billing-p1'' billing_world))) =
     Inr ''billing-p1''"
  by (simp add: run_defs stuck_fnclient_def mem_fnclient_def unavailable_def
        billing_world_def billing_app_def)

subsection \<open>Get: which record is shown\<close>

text \<open>
  Claim C7, as the code has it. When the local record exists and the platform's
  lookup returns, the record in the view of get is the one \<^verbatim>\<open>pop()\<close> takes from the
  rows the registry returned for the project and name, which is the last of them;
  when exactly one row matches, it is that row.
\<close>

theorem get_uses_last_record:
  assumes "a0 \<in> set (registry w)" and "name a0 = n" and "project_id a0 = pid"
    and "apps_show c n (remote w) = Inr fn_app"
  shows "fst (get error_text c pid n w) =
           Inr \<lparr>data = AppBody
                   \<lparr>view_app = last (fst (Apps_find_by pid (Some n) w)),
                    view_fn_app = fn_app\<rparr>
                   ''Successfully loaded app'',
                 status = 200\<rparr> \<and>
         (fst (Apps_find_by pid (Some n) w) = [a] \<longrightarrow>
            fst (get error_text c pid n w) =
              Inr \<lparr>data = AppBody \<lparr>view_app = a, view_fn_app = fn_app\<rparr>
                      ''Successfully loaded app'',
                    status = 200\<rparr>)"
proof -
  have "find_by pid (Some n) (registry w) \<noteq> []"
    using assms(1-3) by (intro find_by_nonempty[of a0]) simp_all
  then have "fst (get error_text c pid n w) =
           Inr \<lparr>data = AppBody
                   \<lparr>view_app = last (fst (Apps_find_by pid (Some n) w)),
                    view_fn_app = fn_app\<rparr>
                   ''Successfully loaded app'',
                 status = 200\<rparr>"
    using assms(4)
    by (simp add: get_def get_body_def api_action_def calls_defs json_response_def AppView_def
          pop_last)
  then show ?thesis by auto
qed

theorem get_uses_last_record_witness:
  "newer_twin \<in> set (registry twin_world) \<and>
   fst (Apps_find_by ''p1'' (Some ''twin-p1'') twin_world) = [older_twin, newer_twin] \<and>
   fst (get getattr_reason mem_fnclient ''p1'' ''twin-p1'' twin_world) =
     Inr \<lparr>data = AppBody \<lparr>view_app = newer_twin, view_fn_app = ''twin-p1''\<rparr>
             ''Successfully loaded app'',
           status = 200\<rparr>"
proof -
  have row: "newer_twin \<in> set (registry twin_world)"
    by (simp add: twin_world_def)
  have row_name: "name newer_twin = ''twin-p1''"
    by (simp add: newer_twin_def)
  have row_project: "project_id newer_twin = ''p1''"
    by (simp add: newer_twin_def)
  have shown: "apps_show mem_fnclient ''twin-p1'' (remote twin_world) = Inr ''twin-p1''"
    by (simp add: mem_fnclient_def twin_world_def)
  have rows: "fst (Apps_find_by ''p1'' (Some ''twin-p1'') twin_world) = [older_twin, newer_twin]"
    by (simp add: Apps_find_by_def find_by_def matches_def twin_world_def older_twin_def
          newer_twin_def)
  from get_uses_last_record [OF row row_name row_project shown,
      where error_text = getattr_reason] row rows
  show ?thesis
    by simp
qed

text \<open>
  With two rows under one project and name, the view of get does not show the first
  row of the lookup: it shows the second.
\<close>

theorem get_first_record_counterexample:
  "hd (fst (Apps_find_by ''p1'' (Some ''twin-p1'') twin_world)) = older_twin \<and>
   fst (get getattr_reason mem_fnclient ''p1'' ''twin-p1'' twin_world) =
     Inr \<lparr>data = AppBody \<lparr>view_app = newer_twin, view_fn_app = ''twin-p1''\<rparr>
             ''Successfully loaded app'',
           status = 200\<rparr> \<and>
   fst (get getattr_reason mem_fnclient ''p1'' ''twin-p1'' twin_world) \<noteq>
     Inr \<lparr>data = AppBody
             \<lparr>view_app = hd (fst (Apps_find_by ''p1'' (Some ''twin-p1'') twin_world)),
              view_fn_app = ''twin-p1''\<rparr>
             ''Successfully loaded app'',
           status = 200\<rparr>"
  by (simp add: run_defs twin_world_def older_twin_def newer_twin_def mem_fnclient_def)

subsection \<open>Update\<close>

text \<open>
  Claim C9. Update never writes the local registry, whatever the request body holds:
  after every update request the registry is the one before it. When the body does not
  decode, update makes no call. Otherwise the calls it makes are the existence check,
  then the platform's \<open>apps.update\<close>, then the re-read \<open>find_by\<close> of the local record, and
  it stops after the first or the second when the record is missing or the platform
  raises.
\<close>

theorem update_keeps_registry:
  "registry (snd (update error_text c pid n req w)) = registry w \<and>
   calls (snd (update error_text c pid n req w)) \<in>
     (case req of
        Inl ex \<Rightarrow> {calls w}
      | Inr d \<Rightarrow>
          {calls w @ [RegExists n pid],
           calls w @ [RegExists n pid, FnUpdate n d],
           calls w @ [RegExists n pid, FnUpdate n d, RegFindBy pid (Some n)]})"
  by (cases req)
     (auto simp: update_def update_body_def api_action_def calls_defs
           split: sum.splits prod.splits list.splits)

text \<open>
  \<^verbatim>\<open>PUT /p1/apps/billing-p1\<close> with a new name and a new description in the body: the
  answer shows the stored record, and the registry holds it unchanged.
\<close>

theorem update_keeps_registry_witness:
  "update getattr_reason mem_fnclient ''p1'' ''billing-p1'' (Inr described_body) billing_world =
     (Inr \<lparr>data = AppBody \<lparr>view_app = billing_app, view_fn_app = ''billing-p1''\<rparr>
              ''App successfully updated'',
            status = 200\<rparr>,
      \<lparr>registry = [billing_app], remote = [(''billing-p1'', [])],
       calls = [RegExists ''billing-p1'' ''p1'', FnUpdate ''billing-p1'' described_body,
                RegFindBy ''p1'' (Some ''billing-p1'')]\<rparr>) \<and>
   registry (snd (update getattr_reason mem_fnclient ''p1'' ''billing-p1''
                    (Inr described_body) billing_world)) =
     registry billing_world"
  using update_keeps_registry [where c = mem_fnclient and pid = "''p1''"
      and n = "''billing-p1''" and req = "Inr described_body" and w = billing_world
      and error_text = getattr_reason]
  by (simp add: run_defs billing_world_def billing_app_def mem_fnclient_def described_body_def)

subsection \<open>List\<close>

text \<open>
  Claim C10, as the code has it. When the platform's lookup raises for some stored app
  of the project, the body of list does not catch the exception: the loop stops at the
  first stored app whose lookup raises, the apps after it are not looked up, and that
  exception leaves the body, so the views collected so far are dropped and no list,
  partial or other, is returned. The exception does not leave the decorated handler:
  the answer is an error response with the exception's \<open>status\<close> attribute, 500 when it
  has none. The two stores are as before.
\<close>

theorem list_aborts_at_first_failure:
  assumes "a \<in> set (registry w)" and "project_id a = pid"
    and "apps_show c (name a) (remote w) = Inl ex0"
  shows "\<exists>pre b post ex.
           find_by pid None (registry w) = pre @ b # post \<and>
           (\<forall>x\<in>set pre. \<not> isl (apps_show c (name x) (remote w))) \<and>
           apps_show c (name b) (remote w) = Inl ex \<and>
           list_body c pid w =
             (Inl ex,
              w\<lparr>calls := calls w @ RegFindBy pid None #
                                    map (\<lambda>x. FnShow (name x)) (pre @ [b])\<rparr>) \<and>
           list_apps error_text c pid w =
             (Inr \<lparr>data = ErrorBody (error_text ex),
                   status = (case ex_status ex of None \<Rightarrow> 500 | Some s \<Rightarrow> s)\<rparr>,
              w\<lparr>calls := calls w @ RegFindBy pid None #
                                    map (\<lambda>x. FnShow (name x)) (pre @ [b])\<rparr>)"
proof -
  let ?stored = "find_by pid None (registry w)"
  let ?raises = "\<lambda>b. isl (apps_show c (name b) (remote w))"
  have "a \<in> set ?stored"
    using assms(1,2) by (simp add: find_by_def matches_def)
  then have "\<exists>b\<in>set ?stored. ?raises b"
    using assms(3) by (intro bexI[of _ a]) simp_all
  then obtain pre b post where split: "?stored = pre @ b # post"
    and b: "?raises b" and pre: "\<forall>x\<in>set pre. \<not> ?raises x"
    using split_list_first_prop[of ?stored ?raises] by blast
  from b obtain ex where ex: "apps_show c (name b) (remote w) = Inl ex"
    by (auto simp: isl_def)
  let ?w' = "w\<lparr>calls := calls w @ RegFindBy pid None # map (\<lambda>x. FnShow (name x)) (pre @ [b])\<rparr>"
  have body: "list_body c pid w = (Inl ex, ?w')"
    using split pre ex by (rule list_body_raises)
  then have "list_apps error_text c pid w =
      (Inr \<lparr>data = ErrorBody (error_text ex),
            status = (case ex_status ex of None \<Rightarrow> 500 | Some s \<Rightarrow> s)\<rparr>, ?w')"
    by (simp add: list_apps_def api_action_def json_response_def getattr_status_def)
  with split pre ex body show ?thesis
    by blast
qed

text \<open>
  Project \<open>p1\<close> has two apps; the lookup of the first returns and the lookup of the
  second raises. The body is left by the exception, after both lookups.
\<close>

theorem list_aborts_at_first_failure_witness:
  "shop_app \<in> set (registry half_world) \<and>
   find_by ''p1'' None (registry half_world) = [billing_app, shop_app] \<and>
   apps_show mem_fnclient (name billing_app) (remote half_world) = Inr ''billing-p1'' \<and>
   apps_show mem_fnclient (name shop_app) (remote half_world) = Inl no_such_app \<and>
   list_body mem_fnclient ''p1'' half_world =
     (Inl no_such_app,
      \<lparr>registry = [billing_app, shop_app], remote = [(''billing-p1'', [])],
       calls = [RegFindBy ''p1'' None, FnShow ''billing-p1'', FnShow ''shop-p1'']\<rparr>)"
proof -
  have row: "shop_app \<in> set (registry half_world)"
    by (simp add: half_world_def)
  have row_project: "project_id shop_app = ''p1''"
    by (simp add: shop_app_def)
  have raises: "apps_show mem_fnclient (name shop_app) (remote half_world) = Inl no_such_app"
    by (simp add: mem_fnclient_def half_world_def shop_app_def)
  have returns: "apps_show mem_fnclient (name billing_app) (remote half_world) =
      Inr ''billing-p1''"
    by (simp add: mem_fnclient_def half_world_def billing_app_def)
  have stored: "find_by ''p1'' None (registry half_world) = [billing_app, shop_app]"
    by (simp add: find_by_def matches_def half_world_def billing_app_def shop_app_def)
  have run: "list_body mem_fnclient ''p1'' half_world =
      (Inl no_such_app,
       \<lparr>registry = [billing_app, shop_app], remote = [(''billing-p1'', [])],
        calls = [RegFindBy ''p1'' None, FnShow ''billing-p1'', FnShow ''shop-p1'']\<rparr>)"
    by (simp add: run_defs half_world_def billing_app_def shop_app_def mem_fnclient_def)
  from list_aborts_at_first_failure [OF row row_project raises,
      where error_text = getattr_reason] row stored returns raises run
  show ?thesis
    by simp
qed

text \<open>
  On the same request the handler has an answer: status 404 with the reason of the
  exception. The exception has not left the handler.
\<close>

theorem list_answers_counterexample:
  "apps_show mem_fnclient (name shop_app) (remote half_world) = Inl no_such_app \<and>
   list_apps getattr_reason mem_fnclient ''p1'' half_world =
     (Inr \<lparr>data = ErrorBody ''App not found'', status = 404\<rparr>,
      \<lparr>registry = [billing_app, shop_app], remote = [(''billing-p1'', [])],
       calls = [RegFindBy ''p1'' None, FnShow ''billing-p1'', FnShow ''shop-p1'']\<rparr>) \<and>
   \<not> isl (fst (list_apps getattr_reason mem_fnclient ''p1'' half_world))"
  by (simp add: run_defs half_world_def billing_app_def shop_app_def mem_fnclient_def
        no_such_app_def)

end
